theory Spec2Isabelle
  imports Main
begin

section \<open>Python values\<close>

text \<open>
  A Python \<open>str\<close> is a sequence of Unicode code points, and \<open>len\<close> counts code points.
  Isabelle's \<open>char\<close> holds one byte only, and \<open>chatdb.py\<close> tests for the code point 65532,
  so a \<open>str\<close> is modelled as the list of its code points; \<open>str\<close> embeds an ASCII literal.
\<close>

type_synonym pystr = "nat list"

definition str :: "string \<Rightarrow> pystr" where
  "str s = map of_char s"

definition nl :: pystr where
  "nl = [10]"

text \<open>The exceptions the two modules can raise, as values.\<close>

datatype error =
    FileNotFoundError pystr
  | DatabaseError
  | IndexError
  | ValueError
  | OverflowError

text \<open>\<open>sep.join(parts)\<close>\<close>

fun join :: "pystr \<Rightarrow> pystr list \<Rightarrow> pystr" where
  "join sep [] = []"
| "join sep [x] = x"
| "join sep (x # y # ys) = x @ sep @ join sep (y # ys)"

text \<open>\<open>s.startswith(prefix)\<close>\<close>

definition startswith :: "pystr \<Rightarrow> pystr \<Rightarrow> bool" where
  "startswith s pre = (take (length pre) s = pre)"

text \<open>
  \<open>s.strip()\<close> removes the leading and trailing code points for which \<open>str.isspace\<close>
  holds: the ASCII controls 9 to 13 and 28 to 31, the space, and the Unicode spaces and
  separators listed below.
\<close>

definition isspace :: "nat \<Rightarrow> bool" where
  "isspace c =
     ((9 \<le> c \<and> c \<le> 13) \<or> (28 \<le> c \<and> c \<le> 32) \<or> c = 133 \<or> c = 160 \<or> c = 5760
      \<or> (8192 \<le> c \<and> c \<le> 8202) \<or> c = 8232 \<or> c = 8233 \<or> c = 8239 \<or> c = 8287
      \<or> c = 12288)"

definition strip :: "pystr \<Rightarrow> pystr" where
  "strip s = rev (dropWhile isspace (rev (dropWhile isspace s)))"

text \<open>\<open>os.path.join(a, b)\<close> on a POSIX system.\<close>

definition path_join :: "pystr \<Rightarrow> pystr \<Rightarrow> pystr" where
  "path_join a b =
     (if startswith b (str ''/'') then b
      else if a = [] \<or> last a = 47 then a @ b
      else a @ str ''/'' @ b)"

section \<open>chatdb.py\<close>

text \<open>
  \<open>@dataclass class Message\<close>. A timestamp is a naive \<open>datetime\<close>, modelled as the number
  of microseconds since \<open>datetime.min\<close> (0001-01-01T00:00:00): no \<open>datetime\<close> lies before
  it, so the type is \<open>nat\<close> and \<open>datetime.min\<close> is 0.
\<close>

record Message =
  speaker :: "pystr option"
  "text" :: pystr
  timestamp :: nat

text \<open>
  A row of the result set, as the loop unpacks it:
  \<open>chat_name, speaker, text, raw_timestamp = row\<close>. The query keeps only rows whose text
  is not \<open>NULL\<close>; the speaker is \<open>None\<close> when no handle resolves.
\<close>

type_synonym Row = "pystr \<times> pystr option \<times> pystr \<times> pystr"

text \<open>
  What \<open>extract_group_chats\<close> reads from outside the module: the home directory, the file
  system test \<open>os.path.exists\<close>, the message store (connecting to the database at a path,
  executing \<open>READ_QUERY\<close> with one bound parameter and fetching all rows, or failing with a
  database error), and the library functions \<open>datetime.fromisoformat\<close> (\<open>None\<close> where it
  raises \<open>ValueError\<close>), \<open>str.upper\<close> and \<open>str.lower\<close>, which are taken as they come.
\<close>

record World =
  home :: pystr
  path_exists :: "pystr \<Rightarrow> bool"
  fetchall :: "pystr \<Rightarrow> pystr \<Rightarrow> error + Row list"
  fromisoformat :: "pystr \<Rightarrow> nat option"
  upper :: "pystr \<Rightarrow> pystr"
  lower :: "pystr \<Rightarrow> pystr"

definition CHATDB_PATH :: "World \<Rightarrow> pystr" where
  "CHATDB_PATH w = path_join (home w) (str ''Library/Messages/chat.db'')"

text \<open>The accesses to the store that a call makes, in order.\<close>

datatype event = Connect pystr

text \<open>
  \<open>chats = defaultdict(list)\<close>: a dictionary keeps its keys in insertion order, so it is
  an association list; \<open>chats[chat_name].append(m)\<close> adds the key when it is new.
\<close>

type_synonym chats = "(pystr \<times> Message list) list"

fun append_chat :: "chats \<Rightarrow> pystr \<Rightarrow> Message \<Rightarrow> chats" where
  "append_chat [] chat_name m = [(chat_name, [m])]"
| "append_chat ((k, chat) # rest) chat_name m =
     (if k = chat_name then (k, chat @ [m]) # rest
      else (k, chat) # append_chat rest chat_name m)"

text \<open>
  \<open>if speaker is not None: speaker = speaker[0].upper() + speaker[1:].lower()\<close>;
  \<open>speaker[0]\<close> raises \<open>IndexError\<close> on the empty string.
\<close>

definition normalize_speaker :: "World \<Rightarrow> pystr option \<Rightarrow> error + pystr option" where
  "normalize_speaker w sp =
     (case sp of
        None \<Rightarrow> Inr None
      | Some [] \<Rightarrow> Inl IndexError
      | Some (c # cs) \<Rightarrow> Inr (Some (upper w [c] @ lower w cs)))"

text \<open>
  The part of the loop body that can raise, in the order of the source: strip the text,
  normalise the speaker, parse the timestamp.
\<close>

definition normalize_row :: "World \<Rightarrow> Row \<Rightarrow> error + pystr \<times> Message" where
  "normalize_row w row =
     (case row of (chat_name, sp, tx, raw_timestamp) \<Rightarrow>
        (case normalize_speaker w sp of
           Inl e \<Rightarrow> Inl e
         | Inr sp' \<Rightarrow>
             (case fromisoformat w raw_timestamp of
                None \<Rightarrow> Inl ValueError
              | Some ts \<Rightarrow>
                  Inr (chat_name, \<lparr>speaker = sp', text = strip tx, timestamp = ts\<rparr>))))"

text \<open>
  \<open>for row in result_set: ...\<close>; a text holding the object replacement character is
  skipped (\<open>continue\<close>) after the row has been normalised.
\<close>

fun collect_rows :: "World \<Rightarrow> Row list \<Rightarrow> chats \<Rightarrow> error + chats" where
  "collect_rows w [] chats = Inr chats"
| "collect_rows w (row # result_set) chats =
     (case normalize_row w row of
        Inl e \<Rightarrow> Inl e
      | Inr (chat_name, m) \<Rightarrow>
          (if \<exists>char\<in>set (text m). char = 65532 then collect_rows w result_set chats
           else collect_rows w result_set (append_chat chats chat_name m)))"

text \<open>\<open>chats[chat_name] = sorted(chat, key=lambda m: m.timestamp)\<close>, a stable sort.\<close>

definition sort_chats :: "chats \<Rightarrow> chats" where
  "sort_chats chats = map (\<lambda>(chat_name, chat). (chat_name, sort_key timestamp chat)) chats"

text \<open>The result and the accesses to the store made on the way.\<close>

definition extract_group_chats :: "World \<Rightarrow> pystr \<Rightarrow> (error + chats) \<times> event list" where
  "extract_group_chats w chat_name =
     (if \<not> path_exists w (CHATDB_PATH w)
      then (Inl (FileNotFoundError (CHATDB_PATH w)), [])
      else
        (case fetchall w (CHATDB_PATH w) (str ''%'' @ chat_name @ str ''%'') of
           Inl e \<Rightarrow> Inl e
         | Inr result_set \<Rightarrow>
             (case collect_rows w result_set [] of
                Inl e \<Rightarrow> Inl e
              | Inr chats \<Rightarrow> Inr (sort_chats chats)),
         [Connect (CHATDB_PATH w)]))"

section \<open>dataset.py: construct_conversations\<close>

text \<open>
  \<open>timedelta(hours=h)\<close> for an integer \<open>h\<close>: the duration in microseconds. The constructor
  normalises to days, seconds and microseconds and raises \<open>OverflowError\<close> when the number
  of days has magnitude above 999999999.
\<close>

definition timedelta_hours :: "int \<Rightarrow> error + int" where
  "timedelta_hours h =
     (if - 999999999 \<le> h div 24 \<and> h div 24 \<le> 999999999
      then Inr (h * 3600000000) else Inl OverflowError)"

text \<open>The three loop variables of \<open>construct_conversations\<close>.\<close>

record segmenter =
  conversations :: "Message list list"
  conversation :: "Message list"
  start_timestamp :: nat

definition segmenter_init :: segmenter where
  "segmenter_init = \<lparr>conversations = [], conversation = [], start_timestamp = 0\<rparr>"

text \<open>One iteration of the loop body, for the boundary \<open>d\<close> in microseconds.\<close>

definition segment_step :: "int \<Rightarrow> segmenter \<Rightarrow> Message \<Rightarrow> segmenter" where
  "segment_step d st msg =
     (if int (timestamp msg) - int (start_timestamp st) > d
      then \<lparr>conversations =
               (if conversation st \<noteq> [] then conversations st @ [conversation st]
                else conversations st),
            conversation = [msg],
            start_timestamp = timestamp msg\<rparr>
      else st\<lparr>conversation := conversation st @ [msg]\<rparr>)"

text \<open>\<open>for msg in chat: ...\<close>\<close>

fun segment_loop :: "int \<Rightarrow> Message list \<Rightarrow> segmenter \<Rightarrow> segmenter" where
  "segment_loop d [] st = st"
| "segment_loop d (msg # chat) st = segment_loop d chat (segment_step d st msg)"

text \<open>
  The function returns \<open>conversations\<close> as it stands when the loop ends. The \<open>timedelta\<close> is
  built inside the loop body, so it can only raise when there is a message.
\<close>

definition construct_conversations :: "Message list \<Rightarrow> int \<Rightarrow> error + Message list list" where
  "construct_conversations chat boundary_duration =
     (if chat = [] then Inr []
      else case timedelta_hours boundary_duration of
             Inl e \<Rightarrow> Inl e
           | Inr d \<Rightarrow> Inr (conversations (segment_loop d chat segmenter_init)))"

section \<open>dataset.py: construct_example\<close>

text \<open>One transcript line of the context, with the placeholder for an unresolved speaker.\<close>

definition transcript_line :: "Message \<Rightarrow> pystr" where
  "transcript_line msg =
     (case speaker msg of
        Some s \<Rightarrow> s @ str '': '' @ text msg
      | None \<Rightarrow> str ''Unknown speaker: '' @ text msg)"

text \<open>How an f-string formats an \<open>Optional[str]\<close>: \<open>None\<close> prints as \<open>None\<close>.\<close>

definition format_speaker :: "pystr option \<Rightarrow> pystr" where
  "format_speaker sp = (case sp of Some s \<Rightarrow> s | None \<Rightarrow> str ''None'')"

record Example =
  instruction :: pystr
  "input" :: pystr
  "output" :: pystr

text \<open>
  \<open>partial_conversation[:-1]\<close> is \<open>butlast\<close>, also on the empty list;
  \<open>partial_conversation[len(partial_conversation) // 2 : -1]\<close> drops the first
  \<open>len // 2\<close> of those. \<open>partial_conversation[-1]\<close> raises \<open>IndexError\<close> on the empty list.
\<close>

definition full_context :: "Message list \<Rightarrow> pystr" where
  "full_context partial_conversation =
     join nl (map transcript_line (butlast partial_conversation))"

definition halved_context :: "Message list \<Rightarrow> pystr" where
  "halved_context partial_conversation =
     join nl (map transcript_line
       (drop (length partial_conversation div 2) (butlast partial_conversation)))"

definition construct_example :: "Message list \<Rightarrow> pystr \<Rightarrow> error + Example" where
  "construct_example partial_conversation instr =
     (let context = full_context partial_conversation;
          context = (if length context > 256 * 4
                     then halved_context partial_conversation else context);
          context = str ''Conversation:'' @ nl @ context @ nl
      in case partial_conversation of
           [] \<Rightarrow> Inl IndexError
         | _ # _ \<Rightarrow>
             (let last_msg = last partial_conversation
              in Inr \<lparr>instruction = instr,
                      input = context @ format_speaker (speaker last_msg) @ str '': '',
                      output = text last_msg\<rparr>))"

section \<open>dataset.py: the first filter of the main script\<close>

text \<open>
  \<open>if len(c) == 1 and (c[0].text.startswith("http") or len(c[0].text) <= 10): continue\<close>
\<close>

definition low_information :: "Message list \<Rightarrow> bool" where
  "low_information c =
     (length c = 1 \<and> (startswith (text (c ! 0)) (str ''http'') \<or> length (text (c ! 0)) \<le> 10))"

fun filtered_conversations :: "Message list list \<Rightarrow> Message list list" where
  "filtered_conversations [] = []"
| "filtered_conversations (c # cs) =
     (if low_information c then filtered_conversations cs
      else c # filtered_conversations cs)"

section \<open>Predicates on segments and chats\<close>




text \<open>All messages of a mapping from chat names to chats.\<close>

definition messages_of :: "chats \<Rightarrow> Message list" where
  "messages_of chats = concat (map snd chats)"

section \<open>Sample data\<close>

text \<open>
  Messages for the concrete evaluations below. \<open>t0\<close> is 2023-01-01T10:00:00 and \<open>hour\<close>
  one hour, both in microseconds; \<open>long_text\<close> has 1100 characters.
\<close>

definition msg :: "string \<Rightarrow> string \<Rightarrow> nat \<Rightarrow> Message" where
  "msg sp tx ts = \<lparr>speaker = Some (str sp), text = str tx, timestamp = ts\<rparr>"

definition hour :: nat where
  "hour = 3600000000"

definition t0 :: nat where
  "t0 = 63808164000000000"

definition long_text :: pystr where
  "long_text = replicate 1100 97"

definition long_msg :: "string \<Rightarrow> nat \<Rightarrow> Message" where
  "long_msg sp ts = \<lparr>speaker = Some (str sp), text = long_text, timestamp = ts\<rparr>"

text \<open>
  A world whose store answers the pattern \<open>%friends%\<close> with the given rows. Its
  \<open>fromisoformat\<close> knows the two timestamps the sample rows use, and its \<open>upper\<close> and
  \<open>lower\<close> are those of Python on ASCII strings.
\<close>

definition ascii_upper :: "pystr \<Rightarrow> pystr" where
  "ascii_upper s = map (\<lambda>c. if 97 \<le> c \<and> c \<le> 122 then c - 32 else c) s"

definition ascii_lower :: "pystr \<Rightarrow> pystr" where
  "ascii_lower s = map (\<lambda>c. if 65 \<le> c \<and> c \<le> 90 then c + 32 else c) s"

definition sample_world :: "Row list \<Rightarrow> World" where
  "sample_world rows =
     \<lparr>home = str ''/Users/jeremy'',
      path_exists = (\<lambda>p. p = str ''/Users/jeremy/Library/Messages/chat.db''),
      fetchall = (\<lambda>p q. if q = str ''%friends%'' then Inr rows else Inr []),
      fromisoformat =
        (\<lambda>s. if s = str ''2023-01-01 10:00:00'' then Some t0
             else if s = str ''2023-01-01 11:00:00'' then Some (t0 + hour)
             else None),
      upper = ascii_upper,
      lower = ascii_lower\<rparr>"

definition sample_rows :: "Row list" where
  "sample_rows =
     [(str ''friends'', Some (str ''alice''), str ''  Dinner on friday?  '', str ''2023-01-01 10:00:00''),
      (str ''friends'', Some (str ''BOB''), str ''   '', str ''2023-01-01 11:00:00'')]"

definition faulty_rows :: "Row list" where
  "faulty_rows =
     [(str ''friends'', Some (str ''alice''), str ''Dinner on friday?'', str ''2023-01-01 10:00:00''),
      (str ''friends'', Some [], str ''See you at eight, then.'', str ''2023-01-01 11:00:00'')]"

lemmas sample_eval =
  extract_group_chats_def sample_world_def CHATDB_PATH_def path_join_def
  startswith_def normalize_row_def normalize_speaker_def strip_def isspace_def
  sort_chats_def ascii_upper_def ascii_lower_def str_def t0_def hour_def

lemmas segment_eval =
  construct_conversations_def timedelta_hours_def segment_step_def
  segmenter_init_def msg_def t0_def hour_def

section \<open>Chat extractor\<close>

subsection \<open>Stripping is idempotent\<close>

lemma rstrip_prefix: "\<exists>v. t = rev (dropWhile P (rev t)) @ v"
proof -
  have "rev t = takeWhile P (rev t) @ dropWhile P (rev t)" by simp
  then have "t = rev (dropWhile P (rev t)) @ rev (takeWhile P (rev t))"
    by (metis rev_append rev_rev_ident)
  then show ?thesis ..
qed

lemma lstrip_rstrip:
  "dropWhile P (rev (dropWhile P (rev (dropWhile P s)))) = rev (dropWhile P (rev (dropWhile P s)))"
proof (cases "rev (dropWhile P (rev (dropWhile P s))) = []")
  case True
  then show ?thesis by (simp only: dropWhile.simps)
next
  case False
  obtain v where v: "dropWhile P s = rev (dropWhile P (rev (dropWhile P s))) @ v"
    using rstrip_prefix by blast
  with False have "hd (rev (dropWhile P (rev (dropWhile P s)))) = hd (dropWhile P s)"
    by (metis hd_append2)
  moreover from v False have "dropWhile P s \<noteq> []" by (metis append_is_Nil_conv)
  then have "\<not> P (hd (dropWhile P s))" by (rule hd_dropWhile)
  ultimately show ?thesis using False by (simp add: dropWhile_eq_self_iff)
qed

lemma strip_idem: "strip (strip s) = strip s"
  by (simp add: strip_def lstrip_rstrip)

subsection \<open>The messages that reach the mapping\<close>

lemma append_chat_messages:
  "set (messages_of (append_chat chats chat_name m)) = insert m (set (messages_of chats))"
  by (induction chats chat_name m rule: append_chat.induct) (auto simp: messages_of_def)

lemma sort_chats_messages:
  "set (messages_of (sort_chats chats)) = set (messages_of chats)"
  by (induction chats) (auto simp: sort_chats_def messages_of_def)

lemma normalize_row_text:
  "normalize_row w row = Inr (chat_name, m) \<Longrightarrow> strip (text m) = text m"
  by (auto simp: normalize_row_def strip_idem split: prod.splits sum.splits option.splits)

lemma normalize_row_empty_speaker:
  "normalize_row w (chat_name, Some [], tx, raw_timestamp) = Inl IndexError"
  by (simp add: normalize_row_def normalize_speaker_def)

lemma collect_rows_stripped:
  "collect_rows w result_set chats = Inr chats' \<Longrightarrow>
   \<forall>m\<in>set (messages_of chats). strip (text m) = text m \<Longrightarrow>
   \<forall>m\<in>set (messages_of chats'). strip (text m) = text m"
proof (induction result_set arbitrary: chats)
  case Nil
  then show ?case by simp
next
  case (Cons row result_set)
  from Cons.prems(1) obtain chat_name m where row: "normalize_row w row = Inr (chat_name, m)"
    by (auto split: sum.splits)
  then have m: "strip (text m) = text m"
    by (rule normalize_row_text)
  show ?case
  proof (cases "\<exists>char\<in>set (text m). char = 65532")
    case True
    with Cons.prems row have "collect_rows w result_set chats = Inr chats'" by simp
    with Cons.IH Cons.prems(2) show ?thesis by blast
  next
    case False
    with Cons.prems row have "collect_rows w result_set (append_chat chats chat_name m) = Inr chats'"
      by simp
    moreover from m Cons.prems(2)
    have "\<forall>m\<in>set (messages_of (append_chat chats chat_name m)). strip (text m) = text m"
      by (simp add: append_chat_messages)
    ultimately show ?thesis using Cons.IH by blast
  qed
qed

lemma collect_rows_raises:
  "normalize_row w r = Inl e \<Longrightarrow> \<exists>e'. collect_rows w (pre @ r # post) chats = Inl e'"
  by (induction pre arbitrary: chats) (auto split: sum.splits)

lemma collect_rows_first_raise:
  "list_all (\<lambda>q. \<not> isl (normalize_row w q)) pre \<Longrightarrow> normalize_row w r = Inl e \<Longrightarrow>
     collect_rows w (pre @ r # post) chats = Inl e"
  by (induction pre arbitrary: chats) (auto split: sum.splits)

subsection \<open>Retained texts\<close>

text \<open>
  C2 says that no message in the mapping returned by \<open>extract_group_chats\<close> has a text
  that is empty after stripping. The extractor strips every text and has no test for an
  empty one, so a row whose text is only whitespace is retained with the text \<open>""\<close>,
  as the evaluation after the witness shows. What holds, C2 as amended: every message in
  the returned mapping has a stripped text, that is, stripping it again changes nothing;
  the text may be empty.
\<close>

theorem extract_group_chats_text_stripped:
  assumes "extract_group_chats w chat_name = (Inr chats, tr)"
    and "(k, chat) \<in> set chats" and "m \<in> set chat"
  shows "strip (text m) = text m"
proof -
  from assms(1) obtain result_set collected
    where "collect_rows w result_set [] = Inr collected" and "chats = sort_chats collected"
    by (auto simp: extract_group_chats_def split: if_splits sum.splits)
  then have "\<forall>m\<in>set (messages_of chats). strip (text m) = text m"
    using collect_rows_stripped [of w result_set "[]" collected]
    by (simp add: sort_chats_messages) (simp add: messages_of_def)
  moreover from assms(2,3) have "m \<in> set (messages_of chats)"
    by (force simp: messages_of_def)
  ultimately show ?thesis by blast
qed

theorem extract_group_chats_text_stripped_witness:
  "extract_group_chats (sample_world sample_rows) (str ''friends'')
   = (Inr [(str ''friends'',
            [\<lparr>speaker = Some (str ''Alice''), text = str ''Dinner on friday?'', timestamp = t0\<rparr>,
             \<lparr>speaker = Some (str ''Bob''), text = [], timestamp = t0 + hour\<rparr>])],
      [Connect (str ''/Users/jeremy/Library/Messages/chat.db'')])
   \<and> strip (str ''Dinner on friday?'') = str ''Dinner on friday?''"
  using extract_group_chats_text_stripped
    [of "sample_world sample_rows" "str ''friends''"
        "[(str ''friends'',
            [\<lparr>speaker = Some (str ''Alice''), text = str ''Dinner on friday?'', timestamp = t0\<rparr>,
             \<lparr>speaker = Some (str ''Bob''), text = [], timestamp = t0 + hour\<rparr>])]"
        "[Connect (str ''/Users/jeremy/Library/Messages/chat.db'')]"
        "str ''friends''"
        "[\<lparr>speaker = Some (str ''Alice''), text = str ''Dinner on friday?'', timestamp = t0\<rparr>,
          \<lparr>speaker = Some (str ''Bob''), text = [], timestamp = t0 + hour\<rparr>]"
        "\<lparr>speaker = Some (str ''Alice''), text = str ''Dinner on friday?'', timestamp = t0\<rparr>"]
  by (simp add: sample_eval sample_rows_def)

text \<open>
  The store holds a message of Bob's whose text is three spaces. The extractor returns
  it, with the empty text.
\<close>

theorem extract_group_chats_keeps_blank_text:
  "extract_group_chats
     (sample_world
        [(str ''friends'', Some (str ''alice''), str ''  Dinner on friday?  '', str ''2023-01-01 10:00:00''),
         (str ''friends'', Some (str ''BOB''), str ''   '', str ''2023-01-01 11:00:00'')])
     (str ''friends'')
   = (Inr [(str ''friends'',
            [\<lparr>speaker = Some (str ''Alice''), text = str ''Dinner on friday?'', timestamp = t0\<rparr>,
             \<lparr>speaker = Some (str ''Bob''), text = [], timestamp = t0 + hour\<rparr>])],
      [Connect (str ''/Users/jeremy/Library/Messages/chat.db'')])
   \<and> strip [] = []"
  by (simp add: sample_eval)

subsection \<open>A missing store\<close>

text \<open>
  C8. For every chat name, when the path of the store does not exist,
  \<open>extract_group_chats\<close> fails with \<open>FileNotFoundError\<close> carrying that path, and it has
  made no access to the store: nothing is connected to, queried or processed.
\<close>

theorem extract_group_chats_source_not_found:
  "\<not> path_exists w (CHATDB_PATH w) \<Longrightarrow>
     extract_group_chats w chat_name = (Inl (FileNotFoundError (CHATDB_PATH w)), [])"
  by (simp add: extract_group_chats_def)

theorem extract_group_chats_source_not_found_witness:
  "\<not> path_exists ((sample_world sample_rows)\<lparr>path_exists := \<lambda>p. False\<rparr>)
        (CHATDB_PATH ((sample_world sample_rows)\<lparr>path_exists := \<lambda>p. False\<rparr>))
   \<and> extract_group_chats ((sample_world sample_rows)\<lparr>path_exists := \<lambda>p. False\<rparr>) (str ''friends'')
       = (Inl (FileNotFoundError (str ''/Users/jeremy/Library/Messages/chat.db'')), [])"
  using extract_group_chats_source_not_found
    [of "(sample_world sample_rows)\<lparr>path_exists := \<lambda>p. False\<rparr>" "str ''friends''"]
  by (simp add: sample_world_def CHATDB_PATH_def path_join_def startswith_def str_def)

subsection \<open>An empty speaker\<close>

text \<open>
  C9. \<open>extract_group_chats\<close> relies on every resolved speaker being non-empty. When the
  store exists and the result set holds a row whose speaker is the empty string, the
  extraction returns no mapping but fails; when no earlier row fails, the failure is the
  \<open>IndexError\<close> of reading the speaker's first character.
\<close>

theorem extract_group_chats_empty_speaker:
  assumes "path_exists w (CHATDB_PATH w)"
    and "fetchall w (CHATDB_PATH w) (str ''%'' @ chat_name @ str ''%'')
           = Inr (pre @ (name, Some [], tx, raw_timestamp) # post)"
  shows "(\<exists>e. fst (extract_group_chats w chat_name) = Inl e)
       \<and> (list_all (\<lambda>q. \<not> isl (normalize_row w q)) pre \<longrightarrow>
            fst (extract_group_chats w chat_name) = Inl IndexError)"
proof -
  let ?rows = "pre @ (name, Some [], tx, raw_timestamp) # post"
  from assms have run: "fst (extract_group_chats w chat_name) =
      (case collect_rows w ?rows [] of Inl e \<Rightarrow> Inl e | Inr chats \<Rightarrow> Inr (sort_chats chats))"
    by (simp add: extract_group_chats_def)
  obtain e where "collect_rows w ?rows [] = Inl e"
    using collect_rows_raises [OF normalize_row_empty_speaker] by blast
  with run have "\<exists>e. fst (extract_group_chats w chat_name) = Inl e" by simp
  moreover have "fst (extract_group_chats w chat_name) = Inl IndexError"
    if "list_all (\<lambda>q. \<not> isl (normalize_row w q)) pre"
    using collect_rows_first_raise [OF that normalize_row_empty_speaker] run by simp
  ultimately show ?thesis by blast
qed

theorem extract_group_chats_empty_speaker_witness:
  "path_exists (sample_world faulty_rows) (CHATDB_PATH (sample_world faulty_rows))
   \<and> fetchall (sample_world faulty_rows) (CHATDB_PATH (sample_world faulty_rows))
        (str ''%'' @ str ''friends'' @ str ''%'')
      = Inr ([(str ''friends'', Some (str ''alice''), str ''Dinner on friday?'', str ''2023-01-01 10:00:00'')]
             @ (str ''friends'', Some [], str ''See you at eight, then.'', str ''2023-01-01 11:00:00'') # [])
   \<and> fst (extract_group_chats (sample_world faulty_rows) (str ''friends'')) = Inl IndexError"
  using extract_group_chats_empty_speaker
    [of "sample_world faulty_rows" "str ''friends''"
        "[(str ''friends'', Some (str ''alice''), str ''Dinner on friday?'', str ''2023-01-01 10:00:00'')]"
        "str ''friends''" "str ''See you at eight, then.''" "str ''2023-01-01 11:00:00''" "[]"]
  by (simp add: sample_eval faulty_rows_def)

section \<open>Conversation segmenter\<close>

subsection \<open>The loop invariant\<close>

lemma segment_loop_append:
  "segment_loop d (xs @ ys) st = segment_loop d ys (segment_loop d xs st)"
  by (induction xs arbitrary: st) simp_all

lemma segment_loop_snoc:
  "segment_loop d (xs @ [m]) st = segment_step d (segment_loop d xs st) m"
  by (simp add: segment_loop_append)

text \<open>
  Whatever the order of the input, the loop loses no message: the closed segments and the
  open one, in order, are the messages read so far, and the open segment is not empty once
  a message has been read.
\<close>

lemma segment_step_concat:
  "concat (conversations (segment_step d st m)) @ conversation (segment_step d st m)
     = concat (conversations st) @ conversation st @ [m]"
  by (simp add: segment_step_def)

lemma segment_loop_concat:
  "concat (conversations (segment_loop d chat st)) @ conversation (segment_loop d chat st)
     = concat (conversations st) @ conversation st @ chat"
  by (induction chat arbitrary: st) (simp_all add: segment_step_concat)

lemma segment_loop_open:
  "chat \<noteq> [] \<Longrightarrow> conversation (segment_loop d chat segmenter_init) \<noteq> []"
proof (induction chat rule: rev_induct)
  case Nil
  then show ?case by simp
next
  case (snoc m chat)
  show ?case by (simp add: segment_loop_snoc segment_step_def)
qed

text \<open>
  So for every non-empty chat the returned segments stop short of the input: a non-empty
  run of messages at its end, the segment left open, is not returned.
\<close>

lemma construct_conversations_stops_short:
  assumes "chat \<noteq> []" and "timedelta_hours boundary_duration = Inr d"
  shows "\<exists>segs rest. construct_conversations chat boundary_duration = Inr segs
           \<and> rest \<noteq> [] \<and> concat segs @ rest = chat"
proof -
  let ?st = "segment_loop d chat segmenter_init"
  from assms have "construct_conversations chat boundary_duration = Inr (conversations ?st)"
    by (simp add: construct_conversations_def)
  moreover from assms(1) have "conversation ?st \<noteq> []"
    by (rule segment_loop_open)
  moreover have "concat (conversations ?st) @ conversation ?st = chat"
    using segment_loop_concat [of d chat segmenter_init] by (simp add: segmenter_init_def)
  ultimately show ?thesis by blast
qed








subsection \<open>The segment left open\<close>

text \<open>
  C1 says that the segments returned by \<open>construct_conversations\<close>, concatenated in
  order, are the input list. The loop appends a segment to \<open>conversations\<close> only when a
  later message opens the next one, and nothing appends the segment that is open when the
  loop ends, so the returned segments never hold the last conversation of the chat. A chat
  of one message returns no segment at all; a chat of two messages three hours apart
  returns the first message only.
\<close>

theorem construct_conversations_drops_open_segment:
  "construct_conversations [msg ''Alice'' ''Did you see that movie?'' t0] 2 = Inr []
   \<and> construct_conversations
        [msg ''Alice'' ''Did you see that movie?'' t0,
         msg ''Bob'' ''Not yet, is it any good?'' (t0 + 3 * hour)] 2
       = Inr [[msg ''Alice'' ''Did you see that movie?'' t0]]"
  by (simp add: segment_eval)

text \<open>
  C4 says that three messages at \<open>t0\<close>, \<open>t0\<close> + 1h and \<open>t0\<close> + 3h with a boundary of two
  hours give the two segments [\<open>t0\<close>, \<open>t0\<close> + 1h] and [\<open>t0\<close> + 3h]. The function returns only
  the first of them: [\<open>t0\<close> + 3h] is the segment left open at the end of the loop.
\<close>

theorem construct_conversations_three_messages:
  "construct_conversations
     [msg ''Alice'' ''Did you see that movie?'' t0,
      msg ''Bob'' ''Not yet, is it any good?'' (t0 + hour),
      msg ''Carol'' ''Watching it tonight.'' (t0 + 3 * hour)] 2
   = Inr [[msg ''Alice'' ''Did you see that movie?'' t0,
           msg ''Bob'' ''Not yet, is it any good?'' (t0 + hour)]]"
  by (simp add: segment_eval)

subsection \<open>Gaps and the anchor of the boundary test\<close>




section \<open>Example builder\<close>

lemma len_long: "length long_text = 1100" by (simp add: long_text_def)

text \<open>
  C6. For every non-empty partial conversation whose full context (all messages but
  the last, one line each) is longer than 1024 characters, the \<open>input\<close> of the example
  that \<open>construct_example\<close> returns is the header line, then the lines of the messages from
  index \<open>len // 2\<close> up to but excluding the last, once each and in order, then the prompt
  of the last speaker. The context is halved once, whatever the length of the second
  half.
\<close>

theorem construct_example_halves_once:
  "partial_conversation \<noteq> [] \<Longrightarrow>
   length (join nl (map transcript_line (butlast partial_conversation))) > 1024 \<Longrightarrow>
     \<exists>ex. construct_example partial_conversation instr = Inr ex
        \<and> input ex =
            str ''Conversation:'' @ nl
            @ join nl (map transcript_line
                (drop (length partial_conversation div 2) (butlast partial_conversation)))
            @ nl @ format_speaker (speaker (last partial_conversation)) @ str '': ''"
  by (cases partial_conversation)
     (simp_all add: construct_example_def full_context_def halved_context_def Let_def)

theorem construct_example_halves_once_witness:
  "[long_msg ''Alice'' t0, msg ''Bob'' ''Too long, did not read.'' (t0 + 1),
    long_msg ''Carol'' (t0 + 2), msg ''Dave'' ''Same here.'' (t0 + 3)] \<noteq> []
   \<and> length (join nl (map transcript_line (butlast
        [long_msg ''Alice'' t0, msg ''Bob'' ''Too long, did not read.'' (t0 + 1),
         long_msg ''Carol'' (t0 + 2), msg ''Dave'' ''Same here.'' (t0 + 3)]))) > 1024
   \<and> (\<exists>ex. construct_example
          [long_msg ''Alice'' t0, msg ''Bob'' ''Too long, did not read.'' (t0 + 1),
           long_msg ''Carol'' (t0 + 2), msg ''Dave'' ''Same here.'' (t0 + 3)]
          (str ''Continue the chat.'') = Inr ex
        \<and> input ex = str ''Conversation:'' @ nl @ str ''Carol: '' @ long_text @ nl @ str ''Dave: '')
   \<and> length (str ''Carol: '' @ long_text) > 1024"
  using construct_example_halves_once
    [of "[long_msg ''Alice'' t0, msg ''Bob'' ''Too long, did not read.'' (t0 + 1),
          long_msg ''Carol'' (t0 + 2), msg ''Dave'' ''Same here.'' (t0 + 3)]"
        "str ''Continue the chat.''"]
  by (simp add: msg_def long_msg_def transcript_line_def format_speaker_def len_long nl_def str_def)

text \<open>
  C7. For every non-empty partial conversation, \<open>construct_example\<close> returns an example
  whose \<open>output\<close> is the text of the final message, unchanged: nothing is cut off and no
  speaker label is put in front.
\<close>

theorem construct_example_output:
  "partial_conversation \<noteq> [] \<Longrightarrow>
     \<exists>ex. construct_example partial_conversation instr = Inr ex
        \<and> output ex = text (last partial_conversation)"
  by (cases partial_conversation) (simp_all add: construct_example_def Let_def)

theorem construct_example_output_witness:
  "[msg ''Alice'' ''Dinner on friday?'' t0, msg ''Bob'' ''See you at eight, then.'' (t0 + hour)] \<noteq> []
   \<and> (\<exists>ex. construct_example
            [msg ''Alice'' ''Dinner on friday?'' t0, msg ''Bob'' ''See you at eight, then.'' (t0 + hour)]
            (str ''Continue the chat.'') = Inr ex
         \<and> output ex = str ''See you at eight, then.'')"
  using construct_example_output
    [of "[msg ''Alice'' ''Dinner on friday?'' t0, msg ''Bob'' ''See you at eight, then.'' (t0 + hour)]"
        "str ''Continue the chat.''"]
  by (simp add: msg_def)

text \<open>
  C10. The placeholder for an unresolved speaker is used for the context lines only.
  For a non-empty partial conversation whose final message has no speaker,
  \<open>construct_example\<close> returns an example whose \<open>input\<close> ends with the line \<open>None: \<close>,
  after the header and the full or halved context.
\<close>

theorem construct_example_unresolved_target:
  "partial_conversation \<noteq> [] \<Longrightarrow> speaker (last partial_conversation) = None \<Longrightarrow>
     \<exists>ex. construct_example partial_conversation instr = Inr ex
        \<and> input ex =
            str ''Conversation:'' @ nl
            @ (if length (full_context partial_conversation) > 1024
               then halved_context partial_conversation
               else full_context partial_conversation)
            @ nl @ str ''None: ''"
  by (cases partial_conversation)
     (simp_all add: construct_example_def format_speaker_def Let_def str_def)

theorem construct_example_unresolved_target_witness:
  "[\<lparr>speaker = None, text = str ''Anyone around tonight?'', timestamp = t0\<rparr>,
    \<lparr>speaker = None, text = str ''I am in.'', timestamp = t0 + hour\<rparr>] \<noteq> []
   \<and> speaker (last
        [\<lparr>speaker = None, text = str ''Anyone around tonight?'', timestamp = t0\<rparr>,
         \<lparr>speaker = None, text = str ''I am in.'', timestamp = t0 + hour\<rparr>]) = None
   \<and> (\<exists>ex. construct_example
          [\<lparr>speaker = None, text = str ''Anyone around tonight?'', timestamp = t0\<rparr>,
           \<lparr>speaker = None, text = str ''I am in.'', timestamp = t0 + hour\<rparr>]
          (str ''Continue the chat.'') = Inr ex
        \<and> input ex = str ''Conversation:'' @ nl
             @ str ''Unknown speaker: Anyone around tonight?'' @ nl @ str ''None: '')"
  using construct_example_unresolved_target
    [of "[\<lparr>speaker = None, text = str ''Anyone around tonight?'', timestamp = t0\<rparr>,
          \<lparr>speaker = None, text = str ''I am in.'', timestamp = t0 + hour\<rparr>]"
        "str ''Continue the chat.''"]
  by (simp add: full_context_def transcript_line_def nl_def str_def)

section \<open>Dataset assembly\<close>

text \<open>
  C3 says that a single-message segment is dropped exactly when its text begins with
  \<open>http\<close> or is shorter than 10 characters, so that a text of exactly 10 characters that
  is no URL is kept. The comment above the filter says the same (fewer than 10 chars), but
  the test is \<open>len(c[0].text) <= 10\<close>: the segment whose only message is the 10 characters
  \<open>Sounds fun\<close> is dropped. The 23 characters \<open>Did you see that movie?\<close> are kept.
\<close>

theorem filtered_conversations_ten_chars:
  "length (text (msg ''Alice'' ''Sounds fun'' t0)) = 10
   \<and> startswith (text (msg ''Alice'' ''Sounds fun'' t0)) (str ''http'') = False
   \<and> filtered_conversations [[msg ''Alice'' ''Sounds fun'' t0]] = []
   \<and> filtered_conversations [[msg ''Alice'' ''Did you see that movie?'' t0]]
       = [[msg ''Alice'' ''Did you see that movie?'' t0]]"
  by (simp add: low_information_def startswith_def msg_def str_def)

end
